theory Spec2Isabelle
  imports Complex_Main "HOL-Library.Sublist" "HOL-Library.AList"
begin

section \<open>PubSubX server: a shallow embedding of server.py\<close>

text \<open>
  Python \<open>bytes\<close> and \<open>str\<close> are both modelled as \<open>string\<close> (a list of 8-bit
  characters): a \<open>str\<close> is represented by its UTF-8 encoding, so \<open>encode\<close> is the
  identity and \<open>decode\<close> is the identity on valid UTF-8 and raises otherwise. The
  server never measures a \<open>str\<close>, it only compares, splits on the ASCII space and
  concatenates, and these commute with the encoding.
\<close>

subsection \<open>Constants of the classes\<close>

definition MAX_STREAM_SIZE :: nat where
  "MAX_STREAM_SIZE = 10 * 1024"

definition EOM :: string where
  "EOM = [CHR 0x0A, CHR 0x0A, CHR ''x'']"

definition BUFFER_SIZE :: nat where
  "BUFFER_SIZE = 1024"

definition MAX_REQUEST_SIZE :: nat where
  "MAX_REQUEST_SIZE = 10 * BUFFER_SIZE"

definition LOST_TIMEOUT :: real where
  "LOST_TIMEOUT = 60"

subsection \<open>Class Client\<close>

text \<open>
  The fields of \<open>Client\<close>. \<open>topics\<close> is a Python set of strings; it is kept as a
  list without repetitions whose order stands for the set's unspecified iteration order.
  Times are the floats of \<open>time.time()\<close>, idealised as reals.
\<close>

record client =
  name :: string
  fileno :: int
  connected_flag :: bool
  lost_time :: real
  message_stream :: string
  topics :: "string list"

definition Client :: "string \<Rightarrow> int \<Rightarrow> client" where
  "Client client_name fd =
     \<lparr>name = client_name, fileno = fd, connected_flag = True, lost_time = 0,
      message_stream = [], topics = []\<rparr>"

definition subscribe :: "client \<Rightarrow> string \<Rightarrow> client \<times> bool" where
  "subscribe c topic =
     (if topic \<notin> set (topics c) then (c\<lparr>topics := List.insert topic (topics c)\<rparr>, True)
      else (c, False))"

definition unsubscribe :: "client \<Rightarrow> string \<Rightarrow> client \<times> bool" where
  "unsubscribe c topic =
     (if topic \<in> set (topics c) then (c\<lparr>topics := removeAll topic (topics c)\<rparr>, True)
      else (c, False))"

definition add_message :: "client \<Rightarrow> string \<Rightarrow> client \<times> nat" where
  "add_message c message =
     (let c' = (if length (message_stream c) + length message < MAX_STREAM_SIZE
                then c\<lparr>message_stream := message_stream c @ message\<rparr> else c)
      in (c', length (message_stream c')))"

definition message_stream_size :: "client \<Rightarrow> nat" where
  "message_stream_size c = length (message_stream c)"

definition get_message_chunk :: "client \<Rightarrow> nat \<Rightarrow> client \<times> string \<times> nat" where
  "get_message_chunk c max_chunk_size =
     (let stream_size = message_stream_size c;
          remove = (if stream_size > max_chunk_size then max_chunk_size else stream_size);
          msg_chunk = take remove (message_stream c);
          c' = c\<lparr>message_stream := drop remove (message_stream c)\<rparr>;
          remaining = stream_size - remove
      in (c', msg_chunk, remaining))"

subsection \<open>Python built-ins used by the server\<close>

text \<open>
  \<open>bytes.find\<close>: the index of the first occurrence of \<open>sep\<close>, if any.
\<close>

fun find_sub :: "string \<Rightarrow> string \<Rightarrow> nat option" where
  "find_sub sep [] = (if sep = [] then Some 0 else None)"
| "find_sub sep (c # cs) =
     (if prefix sep (c # cs) then Some 0 else map_option Suc (find_sub sep cs))"

text \<open>
  \<open>bytes.split(sep)\<close> and \<open>str.split(sep)\<close> with an explicit separator: cut at the
  first occurrence and go on behind it. Python raises \<open>ValueError\<close> for an empty
  separator; the server only splits on EOM and on a space, and the model returns the
  input unsplit in that case.
\<close>

function py_split :: "string \<Rightarrow> string \<Rightarrow> string list" where
  "py_split sep s =
     (if sep = [] then [s]
      else (case find_sub sep s of
              None \<Rightarrow> [s]
            | Some i \<Rightarrow> take i s # py_split sep (drop (i + length sep) s)))"
  by pat_completeness auto
termination
proof (relation "measure (\<lambda>(sep, s). length s)")
  show "wf (measure (\<lambda>(sep, s). length s))" by simp
next
  fix sep s :: string and i
  assume "sep \<noteq> []" and "find_sub sep s = Some i"
  have "find_sub sep s = Some i \<Longrightarrow> i + length sep \<le> length s" for i
    by (induction s arbitrary: i) (auto dest: prefix_length_le split: if_splits)
  with \<open>sep \<noteq> []\<close> \<open>find_sub sep s = Some i\<close>
  have "i + length sep \<le> length s" and "0 < length sep"
    by auto
  then have "length s - (i + length sep) < length s"
    by arith
  then show "((sep, drop (i + length sep) s), (sep, s)) \<in> measure (\<lambda>(sep, s). length s)"
    by simp
qed

declare py_split.simps [simp del]

text \<open>\<open>sep.join(parts)\<close>.\<close>

fun join :: "string \<Rightarrow> string list \<Rightarrow> string" where
  "join sep [] = []"
| "join sep [x] = x"
| "join sep (x # y # zs) = x @ sep @ join sep (y # zs)"

text \<open>\<open>sep in s\<close> and \<open>s.endswith(sep)\<close> on bytes.\<close>

definition contains :: "string \<Rightarrow> string \<Rightarrow> bool" where
  "contains sep s = (find_sub sep s \<noteq> None)"

definition endswith :: "string \<Rightarrow> string \<Rightarrow> bool" where
  "endswith s sep = suffix sep s"

text \<open>
  \<open>bytes.decode()\<close> succeeds exactly on well-formed UTF-8 (no overlong forms, no
  surrogates, nothing above U+10FFFF); the decoded \<open>str\<close> is represented by the same
  bytes.
\<close>

definition byte_in :: "char \<Rightarrow> nat \<Rightarrow> nat \<Rightarrow> bool" where
  "byte_in c lo hi = (lo \<le> of_char c \<and> of_char c \<le> (hi::nat))"

fun utf8_valid :: "string \<Rightarrow> bool" where
  "utf8_valid [] = True"
| "utf8_valid (a # rest) =
     (if byte_in a 0x00 0x7F then utf8_valid rest
      else (case rest of
        [] \<Rightarrow> False
      | b # rest1 \<Rightarrow>
          if byte_in a 0xC2 0xDF then byte_in b 0x80 0xBF \<and> utf8_valid rest1
          else (case rest1 of
            [] \<Rightarrow> False
          | c # rest2 \<Rightarrow>
              if byte_in a 0xE0 0xEF then
                (if byte_in a 0xE0 0xE0 then byte_in b 0xA0 0xBF
                 else if byte_in a 0xED 0xED then byte_in b 0x80 0x9F
                 else byte_in b 0x80 0xBF)
                \<and> byte_in c 0x80 0xBF \<and> utf8_valid rest2
              else (case rest2 of
                [] \<Rightarrow> False
              | d # rest3 \<Rightarrow>
                  byte_in a 0xF0 0xF4
                  \<and> (if byte_in a 0xF0 0xF0 then byte_in b 0x90 0xBF
                     else if byte_in a 0xF4 0xF4 then byte_in b 0x80 0x8F
                     else byte_in b 0x80 0xBF)
                  \<and> byte_in c 0x80 0xBF \<and> byte_in d 0x80 0xBF \<and> utf8_valid rest3))))"

definition decode :: "string \<Rightarrow> string option" where
  "decode bin_msg = (if utf8_valid bin_msg then Some bin_msg else None)"

subsection \<open>Class Server: state\<close>

text \<open>
  Exceptions are values: a dictionary or set access that misses is \<open>KeyError\<close>, a failed
  \<open>assert\<close> is \<open>AssertionError\<close>, and an \<open>epoll\<close> call on a descriptor in the wrong
  registration state is \<open>OSError\<close>. Failures of the operating system's sockets
  themselves (a reset connection, a full send buffer) are outside the model.
\<close>

datatype error = KeyError | AssertionError | OSError

text \<open>The two event masks the server registers: \<open>EPOLLIN\<close> and \<open>EPOLLIN | EPOLLOUT\<close>.\<close>

datatype interest = EPOLLIN | EPOLLIN_EPOLLOUT

text \<open>
  \<open>Client\<close> objects are shared between the dictionaries and the topic sets, and are
  mutated through any of them, so they live in an explicit store: \<open>heap\<close> maps an object
  reference to the object, \<open>next_ref\<close> is the next unused reference. A Python reference
  never dangles, hence the store is total. Dictionaries that are only looked up are
  maps; \<open>temp_lost\<close>, which the sweep iterates, is an association list in insertion
  order. A set of clients (hashed by identity) is a list of references without
  repetitions. \<open>sent\<close> records every \<open>send\<close> call: the descriptor and the bytes passed.
\<close>

record server =
  listen_fileno :: int
  connections :: "int set"
  pending :: "int set"
  requests :: "int \<rightharpoonup> string"
  connected_by_fileno :: "int \<rightharpoonup> nat"
  connected_names :: "string \<rightharpoonup> nat"
  temp_lost :: "(string \<times> nat) list"
  topic_index :: "string \<rightharpoonup> nat list"
  last_refresh :: real
  epoll :: "int \<rightharpoonup> interest"
  heap :: "nat \<Rightarrow> client"
  next_ref :: nat
  sent :: "(int \<times> string) list"

definition and_then :: "error + 'a \<Rightarrow> ('a \<Rightarrow> error + 'b) \<Rightarrow> error + 'b" where
  "and_then r f = (case r of Inl e \<Rightarrow> Inl e | Inr x \<Rightarrow> f x)"

text \<open>A \<open>for\<close> loop over a list whose body may raise.\<close>

fun for_each :: "('a \<Rightarrow> server \<Rightarrow> error + server) \<Rightarrow> 'a list \<Rightarrow> server \<Rightarrow> error + server" where
  "for_each body [] s = Inr s"
| "for_each body (x # xs) s = and_then (body x s) (for_each body xs)"

definition epoll_register :: "server \<Rightarrow> int \<Rightarrow> interest \<Rightarrow> error + server" where
  "epoll_register s fd ev =
     (if epoll s fd \<noteq> None then Inl OSError else Inr (s\<lparr>epoll := (epoll s)(fd \<mapsto> ev)\<rparr>))"

definition epoll_unregister :: "server \<Rightarrow> int \<Rightarrow> error + server" where
  "epoll_unregister s fd =
     (if epoll s fd = None then Inl OSError else Inr (s\<lparr>epoll := (epoll s)(fd := None)\<rparr>))"

definition epoll_modify :: "server \<Rightarrow> int \<Rightarrow> interest \<Rightarrow> error + server" where
  "epoll_modify s fd ev =
     (if epoll s fd = None then Inl OSError else Inr (s\<lparr>epoll := (epoll s)(fd \<mapsto> ev)\<rparr>))"

text \<open>\<open>self.__connections[fileno].send(msg)\<close>.\<close>

definition connection_send :: "server \<Rightarrow> int \<Rightarrow> string \<Rightarrow> error + server" where
  "connection_send s fd msg =
     (if fd \<notin> connections s then Inl KeyError else Inr (s\<lparr>sent := sent s @ [(fd, msg)]\<rparr>))"

definition init_server :: "int \<Rightarrow> real \<Rightarrow> server" where
  "init_server fd now =
     \<lparr>listen_fileno = fd, connections = {}, pending = {}, requests = Map.empty,
      connected_by_fileno = Map.empty, connected_names = Map.empty, temp_lost = [],
      topic_index = Map.empty, last_refresh = now, epoll = [fd \<mapsto> EPOLLIN],
      heap = (\<lambda>r. Client [] 0), next_ref = 0, sent = []\<rparr>"

subsection \<open>Connection functions\<close>

text \<open>\<open>fd\<close> is the descriptor of the connection that \<open>accept\<close> returned.\<close>

definition connection_register :: "server \<Rightarrow> int \<Rightarrow> error + server" where
  "connection_register s fd =
     and_then (epoll_register s fd EPOLLIN) (\<lambda>s.
       Inr (s\<lparr>connections := insert fd (connections s),
              pending := insert fd (pending s),
              requests := (requests s)(fd \<mapsto> [])\<rparr>))"

definition connection_remove :: "server \<Rightarrow> int \<Rightarrow> error + server" where
  "connection_remove s fd =
     and_then (epoll_unregister s fd) (\<lambda>s.
       if fd \<notin> connections s then Inl KeyError
       else if requests s fd = None then Inl KeyError
       else Inr (s\<lparr>connections := connections s - {fd},
                   requests := (requests s)(fd := None),
                   pending := pending s - {fd}\<rparr>))"

subsection \<open>Client functions\<close>

text \<open>
  One turn of the loop of \<open>__client_remove\<close>: take the client out of the topic's set
  and delete the topic when the set is left empty.
\<close>

definition topic_discard :: "nat \<Rightarrow> string \<Rightarrow> server \<Rightarrow> error + server" where
  "topic_discard ref topic s =
     (case topic_index s topic of
        None \<Rightarrow> Inl KeyError
      | Some subs \<Rightarrow>
          if ref \<notin> set subs then Inl KeyError
          else if removeAll ref subs = [] then Inr (s\<lparr>topic_index := (topic_index s)(topic := None)\<rparr>)
          else Inr (s\<lparr>topic_index := (topic_index s)(topic \<mapsto> removeAll ref subs)\<rparr>))"

definition client_remove :: "server \<Rightarrow> nat \<Rightarrow> error + server" where
  "client_remove s ref =
     (let client = heap s ref in
      and_then
        (if connected_flag client then
           (if connected_by_fileno s (fileno client) = None then Inl KeyError
            else if connected_names s (name client) = None then Inl KeyError
            else Inr (s\<lparr>connected_by_fileno := (connected_by_fileno s)(fileno client := None),
                        connected_names := (connected_names s)(name client := None)\<rparr>))
         else
           (if map_of (temp_lost s) (name client) = None then Inl KeyError
            else Inr (s\<lparr>temp_lost := AList.delete (name client) (temp_lost s)\<rparr>)))
        (\<lambda>s. and_then (for_each (topic_discard ref) (topics client) s)
        (\<lambda>s. if connected_flag client then connection_remove s (fileno client) else Inr s)))"

definition client_restore :: "server \<Rightarrow> int \<Rightarrow> string \<Rightarrow> error + server" where
  "client_restore s fd client_name =
     (case map_of (temp_lost s) client_name of
        None \<Rightarrow> Inl KeyError
      | Some ref \<Rightarrow>
          (let client = heap s ref;
               msg1 = (''RESTORED '' @ client_name) @ EOM;
               msg2 = join '' '' (topics client) @ EOM;
               ret_msg = msg1 @ msg2
           in and_then (connection_send s fd ret_msg) (\<lambda>s.
                if fd \<notin> pending s then Inl KeyError
                else
                  (let s = s\<lparr>pending := pending s - {fd},
                              temp_lost := AList.delete client_name (temp_lost s),
                              connected_by_fileno := (connected_by_fileno s)(fd \<mapsto> ref),
                              connected_names := (connected_names s)(client_name \<mapsto> ref),
                              heap := (heap s)(ref := client\<lparr>fileno := fd, connected_flag := True\<rparr>)\<rparr>
                   in if message_stream_size client \<noteq> 0
                      then epoll_modify s fd EPOLLIN_EPOLLOUT else Inr s))))"

definition client_add :: "server \<Rightarrow> int \<Rightarrow> string \<Rightarrow> error + server" where
  "client_add s fd client_name =
     (let ref = next_ref s;
          s = s\<lparr>heap := (heap s)(ref := Client client_name fd), next_ref := Suc ref\<rparr>
      in and_then (connection_send s fd (''OK: Conn accepted'' @ EOM)) (\<lambda>s.
           if fd \<notin> pending s then Inl KeyError
           else Inr (s\<lparr>connected_by_fileno := (connected_by_fileno s)(fd \<mapsto> ref),
                       connected_names := (connected_names s)(client_name \<mapsto> ref),
                       pending := pending s - {fd}\<rparr>)))"

text \<open>\<open>now\<close> is the reading of \<open>time.time()\<close>.\<close>

definition client_lost :: "server \<Rightarrow> int \<Rightarrow> real \<Rightarrow> error + server" where
  "client_lost s fd now =
     (case connected_by_fileno s fd of
        None \<Rightarrow> Inl KeyError
      | Some ref \<Rightarrow>
          (let client = heap s ref in
           if connected_names s (name client) = None then Inl KeyError
           else connection_remove
                  (s\<lparr>connected_by_fileno := (connected_by_fileno s)(fd := None),
                     connected_names := (connected_names s)(name client := None),
                     temp_lost := AList.update (name client) ref (temp_lost s),
                     heap := (heap s)(ref := client\<lparr>fileno := 0, connected_flag := False,
                                                    lost_time := now\<rparr>)\<rparr>)
                  fd))"

definition clients_remove_dead :: "server \<Rightarrow> real \<Rightarrow> error + server" where
  "clients_remove_dead s now =
     (let remove_list =
            remdups (map snd (filter (\<lambda>(client_name, ref).
                       now - lost_time (heap s ref) > LOST_TIMEOUT) (temp_lost s)))
      in for_each (\<lambda>ref s. client_remove s ref) remove_list s)"

subsection \<open>Processing of commands\<close>

definition process_connect :: "server \<Rightarrow> int \<Rightarrow> string \<Rightarrow> error + server" where
  "process_connect s fd client_name =
     (if client_name = [] then Inl AssertionError
      else if connected_names s client_name \<noteq> None then
        and_then (connection_send s fd (''ERROR: Name already taken'' @ EOM))
          (\<lambda>s. connection_remove s fd)
      else if map_of (temp_lost s) client_name \<noteq> None then client_restore s fd client_name
      else client_add s fd client_name)"

definition process_disconect :: "server \<Rightarrow> int \<Rightarrow> error + server" where
  "process_disconect s fd =
     (case connected_by_fileno s fd of
        None \<Rightarrow> Inl KeyError
      | Some ref \<Rightarrow> client_remove s ref)"

text \<open>
  One turn of the loop of \<open>__process_publish\<close>: queue the message to the client and,
  when the returned stream length equals the message length, set the client's
  descriptor to \<open>EPOLLIN | EPOLLOUT\<close> if it is a key of the connected dictionary.
\<close>

definition publish_to :: "string \<Rightarrow> nat \<Rightarrow> server \<Rightarrow> error + server" where
  "publish_to message ref s =
     (case add_message (heap s ref) message of
        (client, stream_len) \<Rightarrow>
          (let s = s\<lparr>heap := (heap s)(ref := client)\<rparr> in
           if stream_len = length message then
             (if connected_by_fileno s (fileno client) \<noteq> None
              then epoll_modify s (fileno client) EPOLLIN_EPOLLOUT else Inr s)
           else Inr s))"

definition process_publish :: "server \<Rightarrow> string \<Rightarrow> string \<Rightarrow> error + server" where
  "process_publish s topic data =
     (if topic = [] then Inl AssertionError
      else (case topic_index s topic of
              None \<Rightarrow> Inr s
            | Some subs \<Rightarrow>
                (let message = (topic @ '' '' @ data) @ EOM
                 in for_each (publish_to message) subs s)))"

definition process_subscribe :: "server \<Rightarrow> int \<Rightarrow> string \<Rightarrow> error + server" where
  "process_subscribe s fd topic =
     (if topic = [] then Inl AssertionError
      else (case connected_by_fileno s fd of
              None \<Rightarrow> Inl KeyError
            | Some ref \<Rightarrow>
                (case subscribe (heap s ref) topic of
                   (client, added) \<Rightarrow>
                     (let s = s\<lparr>heap := (heap s)(ref := client)\<rparr> in
                      if added then
                        (case topic_index s topic of
                           None \<Rightarrow> Inr (s\<lparr>topic_index := (topic_index s)(topic \<mapsto> List.insert ref [])\<rparr>)
                         | Some subs \<Rightarrow>
                             Inr (s\<lparr>topic_index := (topic_index s)(topic \<mapsto> List.insert ref subs)\<rparr>))
                      else Inr s))))"

definition process_unsubscribe :: "server \<Rightarrow> int \<Rightarrow> string \<Rightarrow> error + server" where
  "process_unsubscribe s fd topic =
     (if topic = [] then Inl AssertionError
      else (case connected_by_fileno s fd of
              None \<Rightarrow> Inl KeyError
            | Some ref \<Rightarrow>
                (case unsubscribe (heap s ref) topic of
                   (client, removed) \<Rightarrow>
                     (let s = s\<lparr>heap := (heap s)(ref := client)\<rparr> in
                      if removed then topic_discard ref topic s else Inr s))))"

definition process_command ::
    "server \<Rightarrow> int \<Rightarrow> string \<Rightarrow> string \<Rightarrow> string \<Rightarrow> error + server" where
  "process_command s fd command arg1 data =
     (if fd \<in> pending s then
        (if command = ''CONNECT'' \<and> arg1 \<noteq> [] then process_connect s fd arg1
         else connection_remove s fd)
      else if command = ''DISCONNECT'' then process_disconect s fd
      else if command = ''PUBLISH'' \<and> arg1 \<noteq> [] then process_publish s arg1 data
      else if command = ''SUBSCRIBE'' \<and> arg1 \<noteq> [] then process_subscribe s fd arg1
      else if command = ''UNSUBSCRIBE'' \<and> arg1 \<noteq> [] then process_unsubscribe s fd arg1
      else Inr s)"

subsection \<open>I/O functions\<close>

definition process_message :: "int \<Rightarrow> string \<Rightarrow> server \<Rightarrow> error + server" where
  "process_message fd bin_msg s =
     (if bin_msg = [] then Inr s
      else (case decode bin_msg of
              None \<Rightarrow> Inr s
            | Some msg \<Rightarrow>
                (let msg_list = py_split '' '' msg;
                     command = (case msg_list of [] \<Rightarrow> [] | c # _ \<Rightarrow> c);
                     arg1 = (if 1 < length msg_list then msg_list ! 1 else []);
                     data = join '' '' (drop 2 msg_list)
                 in process_command s fd command arg1 data)))"

text \<open>
  The framing part of \<open>__receive_request_chunk\<close> (from the size check to the two
  \<open>pop\<close>s): given the request buffer with the chunk already appended, the new buffer
  and the messages handed to \<open>__process_message\<close>, in order.
\<close>

definition frame_request :: "string \<Rightarrow> string \<times> string list" where
  "frame_request request =
     (if length request > MAX_REQUEST_SIZE then ([], [])
      else if contains EOM request then
        (let bin_msg_list = py_split EOM request in
         if endswith request EOM then ([], butlast bin_msg_list)
         else (last bin_msg_list, butlast bin_msg_list))
      else (request, []))"

text \<open>\<open>request_chunk\<close> is what \<open>recv(BUFFER_SIZE)\<close> returned; \<open>now\<close> the clock.\<close>

definition receive_request_chunk :: "server \<Rightarrow> int \<Rightarrow> string \<Rightarrow> real \<Rightarrow> error + server" where
  "receive_request_chunk s fd request_chunk now =
     (if fd \<notin> connections s then Inl KeyError
      else if request_chunk = [] then
        (if connected_by_fileno s fd \<noteq> None then client_lost s fd now
         else if fd \<notin> pending s then Inl AssertionError
         else connection_remove s fd)
      else (case requests s fd of
              None \<Rightarrow> Inl KeyError
            | Some request \<Rightarrow>
                (case frame_request (request @ request_chunk) of
                   (request', bin_msg_list) \<Rightarrow>
                     for_each (process_message fd) bin_msg_list
                       (s\<lparr>requests := (requests s)(fd \<mapsto> request')\<rparr>))))"

definition send_message_chunk :: "server \<Rightarrow> int \<Rightarrow> error + server" where
  "send_message_chunk s fd =
     (case connected_by_fileno s fd of
        None \<Rightarrow> Inl KeyError
      | Some ref \<Rightarrow>
          (case get_message_chunk (heap s ref) BUFFER_SIZE of
             (client, msg_chunk, remaining) \<Rightarrow>
               if \<not> length msg_chunk \<le> BUFFER_SIZE then Inl AssertionError
               else and_then (connection_send (s\<lparr>heap := (heap s)(ref := client)\<rparr>) fd msg_chunk)
                      (\<lambda>s. if remaining = 0 then epoll_modify s fd EPOLLIN else Inr s)))"

subsection \<open>Main loop\<close>

text \<open>
  One entry of the list \<open>epoll.poll\<close> returns, together with what the environment
  answers while it is handled: the descriptor \<open>accept\<close> would return, the bytes \<open>recv\<close>
  would return, and the clock.
\<close>

record ready =
  ready_fileno :: int
  ready_in :: bool
  ready_out :: bool
  accepted :: int
  received :: string
  clock :: real

definition handle_event :: "ready \<Rightarrow> server \<Rightarrow> error + server" where
  "handle_event e s =
     (if ready_fileno e = listen_fileno s then connection_register s (accepted e)
      else if ready_in e then receive_request_chunk s (ready_fileno e) (received e) (clock e)
      else if ready_out e then send_message_chunk s (ready_fileno e)
      else Inr s)"

text \<open>
  The end of an iteration of \<open>server_loop\<close>: \<open>t1\<close> is the clock read in the condition,
  \<open>t2\<close> the clock read for \<open>now\<close>. A dictionary is true when it is not empty, a float
  when it is not zero.
\<close>

definition refresh_lost :: "server \<Rightarrow> real \<Rightarrow> real \<Rightarrow> error + server" where
  "refresh_lost s t1 t2 =
     (if temp_lost s \<noteq> [] \<and> last_refresh s - t1 \<noteq> 0
      then clients_remove_dead (s\<lparr>last_refresh := t2\<rparr>) t2
      else Inr s)"

definition loop_iteration :: "server \<Rightarrow> ready list \<Rightarrow> real \<Rightarrow> real \<Rightarrow> error + server" where
  "loop_iteration s events t1 t2 =
     and_then (for_each handle_event events s) (\<lambda>s. refresh_lost s t1 t2)"

subsection \<open>Usage mode\<close>

text \<open>
  The script's \<open>__main__\<close> block. \<open>argv\<close> is \<open>sys.argv\<close>; \<open>to_int\<close> stands for Python's
  \<open>int\<close> on a \<open>str\<close> (\<open>None\<close> where it raises \<open>ValueError\<close>). The process either
  leaves through \<open>exit()\<close>, which is called without an argument and therefore ends the
  process with status 0, after the lines it printed, or constructs \<open>Server(port)\<close> and
  enters \<open>server_loop\<close>.
\<close>

datatype outcome = Exit (printed: "string list") (status: nat) | Serve int

definition WRONG_PORT :: string where
  "WRONG_PORT = ''Server port number is wrong or not enterd, must be integer in range 1024 < port < 32000''"

definition print_error :: "string \<Rightarrow> string" where
  "print_error message = ''ERROR: '' @ message"

definition main :: "(string \<Rightarrow> int option) \<Rightarrow> string list \<Rightarrow> outcome" where
  "main to_int argv =
     (case (if 1 < length argv then to_int (argv ! 1) else None) of
        None \<Rightarrow> Exit [print_error WRONG_PORT] 0
      | Some port \<Rightarrow>
          if \<not> (1024 < port \<and> port < 32000) then Exit [print_error WRONG_PORT] 0
          else Serve port)"

text \<open>
  Python's \<open>int\<close> on ASCII text: surrounding white space is stripped, one sign is
  allowed, and the digits may be grouped by single underscores. (Python also accepts
  non-ASCII decimal digits and spaces; they are not covered by this function, and no
  theorem below depends on more than the type of \<open>to_int\<close>.)
\<close>

definition is_space :: "char \<Rightarrow> bool" where
  "is_space c = (byte_in c 0x09 0x0D \<or> byte_in c 0x1C 0x20)"

definition is_digit :: "char \<Rightarrow> bool" where
  "is_digit c = byte_in c 0x30 0x39"

fun digits_value :: "bool \<Rightarrow> nat \<Rightarrow> string \<Rightarrow> nat option" where
  "digits_value after_digit acc [] = (if after_digit then Some acc else None)"
| "digits_value after_digit acc (c # cs) =
     (if is_digit c then digits_value True (10 * acc + (of_char c - 48)) cs
      else if c = CHR ''_'' \<and> after_digit \<and> cs \<noteq> [] then digits_value False acc cs
      else None)"

definition py_int :: "string \<Rightarrow> int option" where
  "py_int text =
     (let stripped = rev (dropWhile is_space (rev (dropWhile is_space text))) in
      case stripped of
        [] \<Rightarrow> None
      | c # cs \<Rightarrow>
          if c = CHR ''-'' then map_option (\<lambda>n. - int n) (digits_value False 0 cs)
          else if c = CHR ''+'' then map_option int (digits_value False 0 cs)
          else map_option int (digits_value False 0 (c # cs)))"

section \<open>Properties\<close>

subsection \<open>Client.add_message\<close>

lemma add_message_fits:
  "length (message_stream c) + length b < MAX_STREAM_SIZE \<Longrightarrow>
   add_message c b =
     (c\<lparr>message_stream := message_stream c @ b\<rparr>, length (message_stream c) + length b)"
  by (simp add: add_message_def)

lemma add_message_full:
  "\<not> length (message_stream c) + length b < MAX_STREAM_SIZE \<Longrightarrow>
   add_message c b = (c, length (message_stream c))"
  by (simp add: add_message_def)

text \<open>
  C5. Enqueue overflow semantics. The claim lets a buffer grow to exactly
  \<open>MAX_STREAM_SIZE\<close> bytes (only a length that would exceed 10240 is refused). The
  code compares with \<open><\<close>: a client holding 10235 queued bytes that is sent the
  5-byte frame of \<open>PUBLISH t\<close> (\<open>t\<close>, a space and EOM) would reach exactly 10240 bytes,
  which does not exceed the maximum, and yet the frame is dropped and 10235 is returned.
\<close>

theorem add_message_drops_at_exact_maximum:
  "length (message_stream ((Client ''bob'' 5)\<lparr>message_stream := replicate 10235 (CHR ''a'')\<rparr>))
     + length (''t '' @ EOM) = MAX_STREAM_SIZE \<and>
   add_message ((Client ''bob'' 5)\<lparr>message_stream := replicate 10235 (CHR ''a'')\<rparr>) (''t '' @ EOM)
     = ((Client ''bob'' 5)\<lparr>message_stream := replicate 10235 (CHR ''a'')\<rparr>, 10235)"
  by (simp add: add_message_def Client_def EOM_def MAX_STREAM_SIZE_def)

subsection \<open>Command line\<close>

text \<open>
  C9 (as the code has it). Whatever \<open>int\<close> does, the server is started on the port
  exactly when \<open>sys.argv[1]\<close> exists, converts to an integer and that integer lies
  strictly between 1024 and 32000; in every other case the process prints the
  WRONG_PORT diagnostic and leaves through \<open>exit()\<close>, that is with exit status 0, without
  constructing the server.
\<close>

theorem main_port_validation:
  "main to_int argv =
     (if 1 < length argv \<and> (\<exists>port. to_int (argv ! 1) = Some port \<and> 1024 < port \<and> port < 32000)
      then Serve (the (to_int (argv ! 1)))
      else Exit [print_error WRONG_PORT] 0)"
  by (auto simp: main_def split: option.splits)

theorem main_port_validation_witness:
  "main py_int [''server.py'', ''5000''] = Serve 5000 \<and>
   main py_int [''server.py'', ''80''] = Exit [print_error WRONG_PORT] 0"
proof -
  have a: "py_int ''5000'' = Some 5000"
    by (simp add: py_int_def is_space_def is_digit_def byte_in_def)
  have b: "py_int ''80'' = Some 80"
    by (simp add: py_int_def is_space_def is_digit_def byte_in_def)
  show ?thesis
    using main_port_validation [of py_int "[''server.py'', ''5000'']"]
      main_port_validation [of py_int "[''server.py'', ''80'']"] a b
    by simp
qed

text \<open>
  The claim as stated asks for a non-zero exit code. Started without an argument the
  script prints the diagnostic and exits with status 0.
\<close>

theorem main_invalid_port_exit_status_zero:
  "main py_int [''server.py''] = Exit [print_error WRONG_PORT] 0 \<and>
   status (main py_int [''server.py'']) = 0"
  by (simp add: main_def)

end
